theory Spec2Isabelle
  imports Main
begin

section \<open>Strings\<close>

text \<open>
  Python strings are modelled as \<^typ>\<open>string\<close>. The model covers ASCII text: \<open>upper\<close> and
  \<open>lower\<close> change the 26 ASCII letters and nothing else, \<open>strip\<close> removes the ASCII
  characters that Python counts as whitespace.
\<close>

definition ascii_lowercase :: string where
  "ascii_lowercase = ''abcdefghijklmnopqrstuvwxyz''"

definition ascii_uppercase :: string where
  "ascii_uppercase = ''ABCDEFGHIJKLMNOPQRSTUVWXYZ''"

definition upper_char :: "char \<Rightarrow> char" where
  "upper_char c = (case map_of (zip ascii_lowercase ascii_uppercase) c of Some u \<Rightarrow> u | None \<Rightarrow> c)"

definition lower_char :: "char \<Rightarrow> char" where
  "lower_char c = (case map_of (zip ascii_uppercase ascii_lowercase) c of Some u \<Rightarrow> u | None \<Rightarrow> c)"

definition upper :: "string \<Rightarrow> string" where
  "upper s = map upper_char s"

definition lower :: "string \<Rightarrow> string" where
  "lower s = map lower_char s"






text \<open>\<open>str(n)\<close> for an integer.\<close>

definition digit_char :: "nat \<Rightarrow> char" where
  "digit_char d = (''0123456789'' ! d)"

fun str_nat :: "nat \<Rightarrow> string" where
  "str_nat n = (if n < 10 then [digit_char n] else str_nat (n div 10) @ [digit_char (n mod 10)])"

declare str_nat.simps [simp del]

definition str_int :: "int \<Rightarrow> string" where
  "str_int i = (if i < 0 then CHR ''-'' # str_nat (nat (- i)) else str_nat (nat i))"

section \<open>Decoded JSON\<close>

text \<open>
  The value \<open>response.json()\<close> returns. A Python dict keeps insertion order and has
  one entry per key, so an object is an association list read by first match. Numbers
  are the integers; the code under study only ever tests a number for truthiness.
\<close>

datatype json =
    JNull
  | JBool bool
  | JInt int
  | JStr string
  | JArr "json list"
  | JObj "(string \<times> json) list"

text \<open>Python truthiness, as used by \<open>if servers:\<close>.\<close>

fun truthy :: "json \<Rightarrow> bool" where
  "truthy JNull = False"
| "truthy (JBool b) = b"
| "truthy (JInt i) = (i \<noteq> 0)"
| "truthy (JStr s) = (s \<noteq> [])"
| "truthy (JArr xs) = (xs \<noteq> [])"
| "truthy (JObj kvs) = (kvs \<noteq> [])"

datatype py_error = AttributeError | KeyError | TypeError | IndexError

text \<open>\<open>d.get(k, default)\<close>: raises AttributeError unless \<open>d\<close> is a dict.\<close>

fun dict_get :: "json \<Rightarrow> string \<Rightarrow> json \<Rightarrow> py_error + json" where
  "dict_get (JObj kvs) k d = Inr (case map_of kvs k of Some v \<Rightarrow> v | None \<Rightarrow> d)"
| "dict_get _ k d = Inl AttributeError"




section \<open>Endpoints\<close>

text \<open>
  The dict built by \<open>extract_endpoints\<close>. The seven keys it always sets are fields; the
  two keys that only the probing phase adds, \<open>status_code\<close> and \<open>content_length\<close>, are
  optional: \<open>None\<close> is a dict without the key.
\<close>

record endpoint =
  path :: string
  full_url :: string
  "method" :: string
  summary :: json
  description :: json
  operationId :: json
  tags :: json
  status_code :: "int option"
  content_length :: "int option"


section \<open>The network\<close>

text \<open>
  A call of \<open>requests.get\<close>, \<open>requests.post\<close>, ... is a \<open>request\<close>: the verb, the URL,
  whether \<open>json={}\<close> is sent, and the timeout in seconds. The library either returns a
  response or raises. The exception classes that \<open>request_endpoint\<close> tells apart are
  those of the requests library: \<open>ConnectTimeout\<close> is both a \<open>Timeout\<close> and a
  \<open>ConnectionError\<close>, all but \<open>OtherException\<close> are \<open>RequestException\<close>s.
\<close>

datatype request = Request (req_verb: string) (req_url: string) (req_json: bool) (req_timeout: nat)

datatype response = Response (resp_status_code: int) (resp_content: "string option")

datatype exc = ConnectTimeout | ReadTimeout | ConnectionError | OtherRequestException | OtherException

fun is_Timeout :: "exc \<Rightarrow> bool" where
  "is_Timeout ConnectTimeout = True"
| "is_Timeout ReadTimeout = True"
| "is_Timeout _ = False"

fun is_ConnectionError :: "exc \<Rightarrow> bool" where
  "is_ConnectionError ConnectTimeout = True"
| "is_ConnectionError ConnectionError = True"
| "is_ConnectionError _ = False"

fun is_RequestException :: "exc \<Rightarrow> bool" where
  "is_RequestException OtherException = False"
| "is_RequestException _ = True"

datatype net_result = Returns response | Raises exc

text \<open>
  The world outside: what a call gives, which may depend on the calls made before it.
  The list of calls made so far is threaded through the probing functions.
\<close>

type_synonym network = "request list \<Rightarrow> request \<Rightarrow> net_result"

section \<open>\<open>request_endpoint\<close>\<close>

text \<open>The call chosen by the \<open>if\<close>/\<open>elif\<close> chain; \<open>None\<close> is its final \<open>else\<close>.\<close>

definition build_request :: "string \<Rightarrow> string \<Rightarrow> request option" where
  "build_request m url =
     (if m = ''GET'' then Some (Request ''GET'' url False 10)
      else if m = ''POST'' then Some (Request ''POST'' url True 10)
      else if m = ''PUT'' then Some (Request ''PUT'' url True 10)
      else if m = ''PATCH'' then Some (Request ''PATCH'' url True 10)
      else if m = ''HEAD'' then Some (Request ''HEAD'' url False 10)
      else if m = ''OPTIONS'' then Some (Request ''OPTIONS'' url False 10)
      else None)"

text \<open>\<open>len(response.content) if response.content else 0\<close>\<close>

definition body_length :: "response \<Rightarrow> int" where
  "body_length r = (case resp_content r of None \<Rightarrow> 0 | Some b \<Rightarrow> (if b \<noteq> [] then int (length b) else 0))"

text \<open>The four \<open>except\<close> clauses, first match first.\<close>

definition classify_exception :: "exc \<Rightarrow> int \<times> int" where
  "classify_exception e =
     (if is_Timeout e then (- 1, 0)
      else if is_ConnectionError e then (- 2, 0)
      else if is_RequestException e then (- 3, 0)
      else (- 4, 0))"

definition request_endpoint ::
  "network \<Rightarrow> endpoint \<Rightarrow> bool \<Rightarrow> request list \<Rightarrow> (int \<times> int) \<times> request list" where
  "request_endpoint net endpoint include_delete calls =
     (let m = upper (method endpoint); url = full_url endpoint in
      if m = ''DELETE'' \<and> \<not> include_delete then ((0, 0), calls)
      else
        (case build_request m url of
           None \<Rightarrow> ((0, 0), calls)
         | Some rq \<Rightarrow>
             (case net calls rq of
                Returns response \<Rightarrow> ((resp_status_code response, body_length response), calls @ [rq])
              | Raises e \<Rightarrow> (classify_exception e, calls @ [rq]))))"

section \<open>\<open>request_all_endpoints\<close>\<close>

text \<open>
  The function mutates the dicts of the list it is given and returns that same list.
  \<open>filtered_endpoints\<close> and \<open>endpoints_to_request\<close> are new lists of references to those
  dicts, so they are lists of positions in \<open>endpoints\<close>, and an assignment through one
  of them is an update of \<open>endpoints\<close> at that position. (The dicts of the list are
  distinct objects: \<open>extract_endpoints\<close> builds a fresh one for each entry.)
\<close>

text \<open>\<open>xs[:n]\<close>\<close>

definition py_take :: "int \<Rightarrow> 'a list \<Rightarrow> 'a list" where
  "py_take n xs = (if 0 \<le> n then take (nat n) xs else take (length xs - nat (- n)) xs)"

definition set_outcome :: "endpoint \<Rightarrow> int \<times> int \<Rightarrow> endpoint" where
  "set_outcome e r = e\<lparr>status_code := Some (fst r), content_length := Some (snd r)\<rparr>"

text \<open>The first loop: one \<open>request_endpoint\<close> per reference, in order.\<close>

fun request_loop ::
  "network \<Rightarrow> bool \<Rightarrow> nat list \<Rightarrow> endpoint list \<times> request list \<Rightarrow> endpoint list \<times> request list" where
  "request_loop net include_delete [] st = st"
| "request_loop net include_delete (i # refs) (eps, calls) =
     (case request_endpoint net (eps ! i) include_delete calls of
        (r, calls') \<Rightarrow> request_loop net include_delete refs (eps[i := set_outcome (eps ! i) r], calls'))"

text \<open>The second loop: the default for what is left of \<open>filtered_endpoints\<close>.\<close>

fun skip_loop :: "nat list \<Rightarrow> endpoint list \<Rightarrow> endpoint list" where
  "skip_loop [] eps = eps"
| "skip_loop (i # refs) eps = skip_loop refs (eps[i := set_outcome (eps ! i) (0, 0)])"

definition filter_endpoints :: "string list option \<Rightarrow> endpoint list \<Rightarrow> nat list" where
  "filter_endpoints allowed_methods endpoints =
     (case allowed_methods of
        None \<Rightarrow> [0..<length endpoints]
      | Some [] \<Rightarrow> [0..<length endpoints]
      | Some ms \<Rightarrow> filter (\<lambda>i. upper (method (endpoints ! i)) \<in> set ms) [0..<length endpoints])"

definition limit_endpoints :: "int option \<Rightarrow> nat list \<Rightarrow> nat list" where
  "limit_endpoints request_limit filtered =
     (case request_limit of
        None \<Rightarrow> filtered
      | Some n \<Rightarrow> (if n \<noteq> 0 then py_take n filtered else filtered))"

definition request_all_endpoints ::
  "network \<Rightarrow> endpoint list \<Rightarrow> int option \<Rightarrow> bool \<Rightarrow> string list option \<Rightarrow> request list
     \<Rightarrow> endpoint list \<times> request list" where
  "request_all_endpoints net endpoints request_limit include_delete allowed_methods calls =
     (let filtered_endpoints = filter_endpoints allowed_methods endpoints;
          endpoints_to_request = limit_endpoints request_limit filtered_endpoints
      in case request_loop net include_delete endpoints_to_request (endpoints, calls) of
           (eps, calls') \<Rightarrow>
             (skip_loop (drop (length endpoints_to_request) filtered_endpoints) eps, calls'))"

section \<open>\<open>parse_methods\<close>\<close>


section \<open>\<open>extract_endpoints\<close>\<close>




definition bind_err :: "'e + 'a \<Rightarrow> ('a \<Rightarrow> 'e + 'b) \<Rightarrow> 'e + 'b" where
  "bind_err m f = (case m of Inl e \<Rightarrow> Inl e | Inr x \<Rightarrow> f x)"






section \<open>\<open>fetch_api_docs\<close>\<close>

text \<open>
  The JSON decoder is the library's and is a parameter, \<open>json_loads\<close>, with \<open>None\<close> for
  \<open>JSONDecodeError\<close>. \<open>sys.exit(1)\<close> is the value \<open>Inl ()\<close>; an exception that is no
  \<open>RequestException\<close> leaves the function and is caught by \<open>main\<close>, which exits with 1
  as well, so both are the left value.
\<close>





section \<open>The renderers\<close>

text \<open>The labels of the source, as the bytes of their UTF-8 encoding.\<close>

definition label_skip :: string where
  "label_skip = [CHR 0xE8, CHR 0xB7, CHR 0xB3, CHR 0xE8, CHR 0xBF, CHR 0x87]"

definition label_timeout :: string where
  "label_timeout = [CHR 0xE8, CHR 0xB6, CHR 0x85, CHR 0xE6, CHR 0x97, CHR 0xB6]"

definition label_connection_error :: string where
  "label_connection_error = [CHR 0xE8, CHR 0xBF, CHR 0x9E, CHR 0xE6, CHR 0x8E, CHR 0xA5, CHR 0xE9, CHR 0x94, CHR 0x99, CHR 0xE8, CHR 0xAF, CHR 0xAF]"

definition label_request_error :: string where
  "label_request_error = [CHR 0xE8, CHR 0xAF, CHR 0xB7, CHR 0xE6, CHR 0xB1, CHR 0x82, CHR 0xE9, CHR 0x94, CHR 0x99, CHR 0xE8, CHR 0xAF, CHR 0xAF]"

definition label_unknown_error :: string where
  "label_unknown_error = [CHR 0xE6, CHR 0x9C, CHR 0xAA, CHR 0xE7, CHR 0x9F, CHR 0xA5, CHR 0xE9, CHR 0x94, CHR 0x99, CHR 0xE8, CHR 0xAF, CHR 0xAF]"

definition label_title :: string where
  "label_title = [CHR 0x41, CHR 0x50, CHR 0x49, CHR 0xE6, CHR 0x8E, CHR 0xA5, CHR 0xE5, CHR 0x8F, CHR 0xA3, CHR 0xE6, CHR 0x96, CHR 0x87, CHR 0xE6, CHR 0xA1, CHR 0xA3]"

text \<open>\<open>endpoint.get('status_code', 0)\<close> and \<open>endpoint.get('content_length', 0)\<close>\<close>

definition get_status_code :: "endpoint \<Rightarrow> int" where
  "get_status_code endpoint = (case status_code endpoint of None \<Rightarrow> 0 | Some c \<Rightarrow> c)"

definition get_content_length :: "endpoint \<Rightarrow> int" where
  "get_content_length endpoint = (case content_length endpoint of None \<Rightarrow> 0 | Some n \<Rightarrow> n)"

text \<open>
  \<open>f"{a / b:.1f}"\<close>. For \<open>0 \<le> a < 2 ^ 53\<close> and \<open>b\<close> a power of two the quotient is exact
  in binary64, and the format rounds the exact value to the nearest tenth, a tie to the
  even tenth.
\<close>

definition round_half_even :: "int \<Rightarrow> int \<Rightarrow> int" where
  "round_half_even a b =
     (let q = a div b; r = a mod b in
      if 2 * r < b then q else if b < 2 * r then q + 1 else if even q then q else q + 1)"

definition format_1f :: "int \<Rightarrow> int \<Rightarrow> string" where
  "format_1f a b =
     (let t = round_half_even (10 * a) b in str_int (t div 10) @ ''.'' @ str_int (t mod 10))"

text \<open>The status cell of the HTML table: the text and its CSS class.\<close>

definition html_status :: "endpoint \<Rightarrow> string \<times> string" where
  "html_status endpoint =
     (let sc = get_status_code endpoint in
      if sc = 0 then (label_skip, ''status-skip'')
      else if sc = - 1 then (label_timeout, ''status-timeout'')
      else if sc = - 2 then (label_connection_error, ''status-error'')
      else if sc = - 3 then (label_request_error, ''status-error'')
      else if sc = - 4 then (label_unknown_error, ''status-error'')
      else if 200 \<le> sc \<and> sc < 300 then (str_int sc, ''status-success'')
      else if 300 \<le> sc \<and> sc < 400 then (str_int sc, ''status-redirect'')
      else if 400 \<le> sc \<and> sc < 500 then (str_int sc, ''status-client-error'')
      else if 500 \<le> sc \<and> sc < 600 then (str_int sc, ''status-server-error'')
      else (str_int sc, ''status-unknown''))"

definition html_length_display :: "endpoint \<Rightarrow> string" where
  "html_length_display endpoint =
     (let cl = get_content_length endpoint; sc = get_status_code endpoint in
      if sc = 0 \<or> sc < 0 then ''/''
      else if cl = 0 then ''0''
      else if cl < 1024 then str_int cl
      else if cl < 1024 * 1024 then format_1f cl 1024 @ ''K''
      else format_1f cl (1024 * 1024) @ ''M'')"



text \<open>\<open>a or b\<close> on two JSON values.\<close>

definition py_or :: "json \<Rightarrow> json \<Rightarrow> json" where
  "py_or a b = (if truthy a then a else b)"

text \<open>
  One row of the HTML table and one row of the CSV file: the values the source puts
  into the cells, without the markup around them.
\<close>

record html_row =
  hr_index :: nat
  hr_method :: string
  hr_href :: string
  hr_path :: string
  hr_status :: string
  hr_status_class :: string
  hr_length :: string
  hr_name :: json

record csv_row =
  cr_method :: string
  cr_path :: string
  cr_full_url :: string
  cr_status :: string
  cr_length :: string
  cr_name :: json

definition html_row_of :: "nat \<Rightarrow> endpoint \<Rightarrow> html_row" where
  "html_row_of i endpoint =
     \<lparr>hr_index = i, hr_method = method endpoint, hr_href = full_url endpoint,
      hr_path = path endpoint, hr_status = fst (html_status endpoint),
      hr_status_class = snd (html_status endpoint), hr_length = html_length_display endpoint,
      hr_name = py_or (summary endpoint) (operationId endpoint)\<rparr>"


text \<open>
  \<open>generate_html\<close> first reads \<open>api_info.get\<close> three times, which raises unless
  \<open>api_info\<close> is a dict, then writes one row per endpoint, numbered from 1.
\<close>

definition generate_html :: "endpoint list \<Rightarrow> json \<Rightarrow> py_error + html_row list" where
  "generate_html endpoints api_info =
     bind_err (dict_get api_info ''title'' (JStr label_title)) (\<lambda>title.
     bind_err (dict_get api_info ''description'' (JStr [])) (\<lambda>description.
     bind_err (dict_get api_info ''version'' (JStr [])) (\<lambda>version.
       Inr (map (\<lambda>(i, e). html_row_of (Suc i) e) (zip [0..<length endpoints] endpoints)))))"


section \<open>\<open>main\<close>\<close>


text \<open>
  What a run leaves behind: the exit status, the rows of the two files when they were
  written, and the calls made.
\<close>

record run =
  exit_status :: int
  html_file :: "html_row list option"
  csv_file :: "csv_row list option"
  calls_made :: "request list"

definition aborted :: "request list \<Rightarrow> run" where
  "aborted calls = \<lparr>exit_status = 1, html_file = None, csv_file = None, calls_made = calls\<rparr>"




section \<open>Concrete inputs\<close>

text \<open>An endpoint as \<open>extract_endpoints\<close> builds it from an operation without metadata.\<close>

definition new_endpoint :: "string \<Rightarrow> string \<Rightarrow> string \<Rightarrow> endpoint" where
  "new_endpoint p url m =
     \<lparr>path = p, full_url = url, method = m, summary = JStr [], description = JStr [],
      operationId = JStr [], tags = JArr [], status_code = None, content_length = None\<rparr>"

definition ep_get_a :: endpoint where
  "ep_get_a = new_endpoint ''/a'' ''http://h/a'' ''GET''"

definition ep_post_b :: endpoint where
  "ep_post_b = new_endpoint ''/b'' ''http://h/b'' ''POST''"

definition ep_delete_a :: endpoint where
  "ep_delete_a = new_endpoint ''/a'' ''http://h/a'' ''DELETE''"

text \<open>A network on which every call times out, and one on which every call is answered.\<close>

definition net_timeout :: network where
  "net_timeout calls rq = Raises ConnectTimeout"

definition net_ok :: network where
  "net_ok calls rq = Returns (Response 200 (Some ''ok''))"










section \<open>Notions used in the statements\<close>

text \<open>An endpoint as it was before any outcome was attached.\<close>

definition without_outcome :: "endpoint \<Rightarrow> endpoint" where
  "without_outcome e = e\<lparr>status_code := None, content_length := None\<rparr>"

text \<open>The calls that the endpoints at the given positions stand for, in order.\<close>

definition calls_for :: "endpoint list \<Rightarrow> nat list \<Rightarrow> request list" where
  "calls_for eps refs =
     List.map_filter (\<lambda>i. build_request (upper (method (eps ! i))) (full_url (eps ! i))) refs"



text \<open>The \<open>info\<close> entry of the document, or its default \<open>{}\<close>, is a dict.\<close>

definition info_is_dict :: "json \<Rightarrow> bool" where
  "info_is_dict doc =
     (case dict_get doc ''info'' (JObj []) of Inr (JObj kvs) \<Rightarrow> True | _ \<Rightarrow> False)"

section \<open>Properties of \<open>request_endpoint\<close>\<close>

lemma upper_verbs [simp]:
  "upper ''GET'' = ''GET''" "upper ''POST'' = ''POST''" "upper ''PUT'' = ''PUT''"
  "upper ''DELETE'' = ''DELETE''" "upper ''PATCH'' = ''PATCH''" "upper ''HEAD'' = ''HEAD''"
  "upper ''OPTIONS'' = ''OPTIONS''"
  by (simp_all add: upper_def upper_char_def ascii_lowercase_def ascii_uppercase_def)

lemma build_request_DELETE [simp]: "build_request ''DELETE'' url = None"
  by (simp add: build_request_def)

lemma build_request_Some:
  "build_request m url = Some rq \<Longrightarrow>
     m \<in> set [''GET'', ''POST'', ''PUT'', ''PATCH'', ''HEAD'', ''OPTIONS'']
     \<and> req_verb rq = m \<and> req_url rq = url \<and> req_timeout rq = 10
     \<and> req_json rq = (m \<in> set [''POST'', ''PUT'', ''PATCH''])"
  by (auto simp: build_request_def split: if_splits)

lemma build_request_verbs:
  "m \<in> set [''GET'', ''POST'', ''PUT'', ''PATCH'', ''HEAD'', ''OPTIONS''] \<Longrightarrow>
     build_request m url = Some (Request m url (m \<in> set [''POST'', ''PUT'', ''PATCH'']) 10)"
  by (auto simp: build_request_def)

lemma build_request_None:
  "m \<notin> set [''GET'', ''POST'', ''PUT'', ''PATCH'', ''HEAD'', ''OPTIONS''] \<Longrightarrow> build_request m url = None"
  by (auto simp: build_request_def)

lemma body_length_eq: "body_length r = (case resp_content r of None \<Rightarrow> 0 | Some b \<Rightarrow> int (length b))"
  by (simp add: body_length_def split: option.splits)

text \<open>
  C6: \<open>request_endpoint\<close> always returns a pair. When the method is one of the six the
  function has a call for, it makes exactly one call, and the pair is the status code of
  the response with the length of its body (0 without a body), or \<open>-1\<close> for a timeout,
  \<open>-2\<close> for a connection error that is no timeout, \<open>-3\<close> for any other exception of the
  requests library and \<open>-4\<close> for any other exception, each with length 0. For every
  other method the pair is \<open>(0, 0)\<close> and no call is made.
\<close>

theorem request_endpoint_classified:
  "(upper (method ep) \<in> set [''GET'', ''POST'', ''PUT'', ''PATCH'', ''HEAD'', ''OPTIONS''] \<longrightarrow>
      (\<exists>rq. req_verb rq = upper (method ep) \<and> req_url rq = full_url ep \<and> req_timeout rq = 10
         \<and> snd (request_endpoint net ep include_delete calls) = calls @ [rq]
         \<and> fst (request_endpoint net ep include_delete calls) =
             (case net calls rq of
                Returns r \<Rightarrow>
                  (resp_status_code r, (case resp_content r of None \<Rightarrow> 0 | Some b \<Rightarrow> int (length b)))
              | Raises e \<Rightarrow>
                  (if is_Timeout e then - 1
                   else if is_ConnectionError e then - 2
                   else if is_RequestException e then - 3
                   else - 4, 0))))
   \<and> (upper (method ep) \<notin> set [''GET'', ''POST'', ''PUT'', ''PATCH'', ''HEAD'', ''OPTIONS''] \<longrightarrow>
        request_endpoint net ep include_delete calls = ((0, 0), calls))"
proof (intro conjI impI)
  assume m: "upper (method ep) \<in> set [''GET'', ''POST'', ''PUT'', ''PATCH'', ''HEAD'', ''OPTIONS'']"
  let ?rq = "Request (upper (method ep)) (full_url ep)
               (upper (method ep) \<in> set [''POST'', ''PUT'', ''PATCH'']) 10"
  have b: "build_request (upper (method ep)) (full_url ep) = Some ?rq"
    using m by (rule build_request_verbs)
  have nd: "upper (method ep) \<noteq> ''DELETE''" using m by auto
  have "snd (request_endpoint net ep include_delete calls) = calls @ [?rq]"
    using b nd by (simp add: request_endpoint_def Let_def split: net_result.splits)
  moreover have "fst (request_endpoint net ep include_delete calls) =
             (case net calls ?rq of
                Returns r \<Rightarrow>
                  (resp_status_code r, (case resp_content r of None \<Rightarrow> 0 | Some b \<Rightarrow> int (length b)))
              | Raises e \<Rightarrow>
                  (if is_Timeout e then - 1
                   else if is_ConnectionError e then - 2
                   else if is_RequestException e then - 3
                   else - 4, 0))"
    using b nd
    by (simp add: request_endpoint_def Let_def classify_exception_def body_length_eq
          split: net_result.splits)
  ultimately show "\<exists>rq. req_verb rq = upper (method ep) \<and> req_url rq = full_url ep \<and> req_timeout rq = 10
         \<and> snd (request_endpoint net ep include_delete calls) = calls @ [rq]
         \<and> fst (request_endpoint net ep include_delete calls) =
             (case net calls rq of
                Returns r \<Rightarrow>
                  (resp_status_code r, (case resp_content r of None \<Rightarrow> 0 | Some b \<Rightarrow> int (length b)))
              | Raises e \<Rightarrow>
                  (if is_Timeout e then - 1
                   else if is_ConnectionError e then - 2
                   else if is_RequestException e then - 3
                   else - 4, 0))"
    by (intro exI[of _ ?rq]) simp
next
  assume "upper (method ep) \<notin> set [''GET'', ''POST'', ''PUT'', ''PATCH'', ''HEAD'', ''OPTIONS'']"
  then have "build_request (upper (method ep)) (full_url ep) = None"
    by (rule build_request_None)
  then show "request_endpoint net ep include_delete calls = ((0, 0), calls)"
    by (simp add: request_endpoint_def Let_def)
qed

theorem request_endpoint_classified_witness:
  "upper (method ep_get_a) \<in> set [''GET'', ''POST'', ''PUT'', ''PATCH'', ''HEAD'', ''OPTIONS'']
   \<and> (\<exists>rq. req_verb rq = upper (method ep_get_a) \<and> req_url rq = full_url ep_get_a \<and> req_timeout rq = 10
         \<and> snd (request_endpoint net_timeout ep_get_a False []) = [] @ [rq]
         \<and> fst (request_endpoint net_timeout ep_get_a False []) =
             (case net_timeout [] rq of
                Returns r \<Rightarrow>
                  (resp_status_code r, (case resp_content r of None \<Rightarrow> 0 | Some b \<Rightarrow> int (length b)))
              | Raises e \<Rightarrow>
                  (if is_Timeout e then - 1
                   else if is_ConnectionError e then - 2
                   else if is_RequestException e then - 3
                   else - 4, 0)))"
proof -
  have h: "upper (method ep_get_a) \<in> set [''GET'', ''POST'', ''PUT'', ''PATCH'', ''HEAD'', ''OPTIONS'']"
    by (simp add: ep_get_a_def new_endpoint_def)
  show ?thesis
    by (rule conjI [OF h request_endpoint_classified
          [of ep_get_a net_timeout False "[]", THEN conjunct1, THEN mp, OF h]])
qed

text \<open>
  C1: with \<open>include_delete\<close> set, a DELETE endpoint passes the guard of
  \<open>request_endpoint\<close>, but the chain of calls has no branch for DELETE: the function
  returns \<open>(0, 0)\<close> without calling the network, and \<open>request_all_endpoints\<close> records
  that as the endpoint's outcome.
\<close>

theorem delete_is_never_requested:
  "request_endpoint net ep_delete_a True calls = ((0, 0), calls)
   \<and> request_all_endpoints net [ep_delete_a] None True None calls =
        ([set_outcome ep_delete_a (0, 0)], calls)"
  by (simp add: request_endpoint_def request_all_endpoints_def filter_endpoints_def
        limit_endpoints_def ep_delete_a_def new_endpoint_def)

section \<open>Properties of \<open>request_all_endpoints\<close>\<close>

text \<open>
  C2: with the allow-list \<open>['GET']\<close>, the POST endpoint of a list of two comes back
  without \<open>status_code\<close> and without \<open>content_length\<close>: the second loop only runs over
  what is left of \<open>filtered_endpoints\<close>.
\<close>

theorem filtered_out_endpoint_has_no_outcome:
  "map status_code
     (fst (request_all_endpoints net_ok [ep_get_a, ep_post_b] None False (Some [''GET'']) []))
     = [Some 200, None]
   \<and> map content_length
     (fst (request_all_endpoints net_ok [ep_get_a, ep_post_b] None False (Some [''GET'']) []))
     = [Some 2, None]"
  by (simp add: request_endpoint_def request_all_endpoints_def filter_endpoints_def
        limit_endpoints_def ep_get_a_def ep_post_b_def new_endpoint_def upt_rec
        build_request_def net_ok_def set_outcome_def body_length_def)

text \<open>
  C3: with \<open>include_delete\<close> false and the allow-list \<open>['GET']\<close>, a DELETE endpoint comes
  back as it went in, whatever the limit: it is not requested, and it is given neither
  status code 0 nor length 0.
\<close>

theorem filtered_out_delete_has_no_outcome:
  "request_all_endpoints net [ep_delete_a] request_limit False (Some [''GET'']) calls =
     ([ep_delete_a], calls)
   \<and> status_code ep_delete_a = None \<and> content_length ep_delete_a = None"
  by (simp add: request_all_endpoints_def filter_endpoints_def py_take_def
        limit_endpoints_def ep_delete_a_def new_endpoint_def split: option.splits)

subsection \<open>The two loops\<close>

lemma set_outcome_fields [simp]:
  "method (set_outcome e r) = method e"
  "full_url (set_outcome e r) = full_url e"
  "path (set_outcome e r) = path e"
  "status_code (set_outcome e r) = Some (fst r)"
  "content_length (set_outcome e r) = Some (snd r)"
  "without_outcome (set_outcome e r) = without_outcome e"
  by (simp_all add: set_outcome_def without_outcome_def)


lemma request_endpoint_no_call:
  "build_request (upper (method e)) (full_url e) = None \<Longrightarrow>
     fst (request_endpoint net e incl calls) = (0, 0)"
  by (simp add: request_endpoint_def Let_def)

lemma request_endpoint_delete_excluded:
  "upper (method e) = ''DELETE'' \<Longrightarrow> request_endpoint net e incl calls = ((0, 0), calls)"
  by (simp add: request_endpoint_def Let_def)

lemma update_outcome_method:
  "method (eps[i := set_outcome (eps ! i) r] ! j) = method (eps ! j)"
  by (cases "i < length eps"; cases "i = j") (simp_all add: list_update_beyond)

lemma update_outcome_full_url:
  "full_url (eps[i := set_outcome (eps ! i) r] ! j) = full_url (eps ! j)"
  by (cases "i < length eps"; cases "i = j") (simp_all add: list_update_beyond)

lemma calls_for_update [simp]:
  "calls_for (eps[i := set_outcome (eps ! i) r]) refs = calls_for eps refs"
  by (simp add: calls_for_def update_outcome_method update_outcome_full_url)


lemma map_without_outcome_update [simp]:
  "map without_outcome (eps[i := set_outcome (eps ! i) r]) = map without_outcome eps"
  by (cases "i < length eps") (simp_all add: map_update list_update_same_conv list_update_beyond)




lemma request_loop_other:
  "i \<notin> set refs \<Longrightarrow> fst (request_loop net incl refs (eps, calls)) ! i = eps ! i"
  by (induction refs arbitrary: eps calls) (auto split: prod.splits)

lemma request_loop_at:
  "distinct refs \<Longrightarrow> i \<in> set refs \<Longrightarrow> \<forall>j\<in>set refs. j < length eps \<Longrightarrow>
     \<exists>r. fst (request_loop net incl refs (eps, calls)) ! i = set_outcome (eps ! i) r
        \<and> (build_request (upper (method (eps ! i))) (full_url (eps ! i)) = None \<longrightarrow> r = (0, 0))"
proof (induction refs arbitrary: eps calls)
  case Nil
  then show ?case by simp
next
  case (Cons k refs)
  obtain r calls1 where rc: "request_endpoint net (eps ! k) incl calls = (r, calls1)"
    by (cases "request_endpoint net (eps ! k) incl calls")
  let ?eps1 = "eps[k := set_outcome (eps ! k) r]"
  have step: "request_loop net incl (k # refs) (eps, calls) = request_loop net incl refs (?eps1, calls1)"
    by (simp add: rc)
  show ?case
  proof (cases "i = k")
    case True
    have "k \<notin> set refs" using Cons.prems(1) by simp
    then have "fst (request_loop net incl refs (?eps1, calls1)) ! k = ?eps1 ! k"
      by (rule request_loop_other)
    moreover have "k < length eps" using Cons.prems(3) by simp
    moreover have "build_request (upper (method (eps ! k))) (full_url (eps ! k)) = None \<longrightarrow> r = (0, 0)"
      using request_endpoint_no_call [of "eps ! k" net incl calls] rc by simp
    ultimately have "fst (request_loop net incl (k # refs) (eps, calls)) ! i = set_outcome (eps ! i) r
        \<and> (build_request (upper (method (eps ! i))) (full_url (eps ! i)) = None \<longrightarrow> r = (0, 0))"
      using True step by simp
    then show ?thesis by (rule exI)
  next
    case False
    then have i: "i \<in> set refs" using Cons.prems(2) by simp
    have d: "distinct refs" using Cons.prems(1) by simp
    have b: "\<forall>j\<in>set refs. j < length ?eps1" using Cons.prems(3) by simp
    from Cons.IH [OF d i b, of calls1]
    obtain r' where r': "fst (request_loop net incl refs (?eps1, calls1)) ! i = set_outcome (?eps1 ! i) r'
      \<and> (build_request (upper (method (?eps1 ! i))) (full_url (?eps1 ! i)) = None \<longrightarrow> r' = (0, 0))"
      ..
    have e: "?eps1 ! i = eps ! i" using False by simp
    have "fst (request_loop net incl (k # refs) (eps, calls)) ! i = set_outcome (eps ! i) r'
      \<and> (build_request (upper (method (eps ! i))) (full_url (eps ! i)) = None \<longrightarrow> r' = (0, 0))"
      using r' unfolding e step .
    then show ?thesis by (rule exI)
  qed
qed

lemma skip_loop_length: "length (skip_loop refs eps) = length eps"
  by (induction refs arbitrary: eps) simp_all




subsection \<open>A run with a limit\<close>







lemma get_status_code_simps [simp]:
  "status_code e = None \<Longrightarrow> get_status_code e = 0"
  "status_code e = Some c \<Longrightarrow> get_status_code e = c"
  by (simp_all add: get_status_code_def)

lemma get_outcome_set [simp]:
  "get_status_code (set_outcome e r) = fst r" "get_content_length (set_outcome e r) = snd r"
  by (simp_all add: get_status_code_def get_content_length_def set_outcome_def)







section \<open>Properties of the renderers\<close>










section \<open>Properties of \<open>extract_endpoints\<close>\<close>


lemma bind_err_simps [simp]: "bind_err (Inr x) f = f x" "bind_err (Inl e) f = Inl e"
  by (simp_all add: bind_err_def)




subsection \<open>Absolute URLs and trailing slashes\<close>

lemma lower_Nil_iff [simp]: "lower s = [] \<longleftrightarrow> s = []"
  by (simp add: lower_def)



















subsection \<open>The base URL\<close>




subsection \<open>The full URL\<close>











section \<open>Properties of \<open>main\<close>\<close>

lemma generate_html_Inr_iff:
  "(\<exists>rows. bind_err (dict_get doc ''info'' (JObj [])) (generate_html eps) = Inr rows)
     \<longleftrightarrow> info_is_dict doc"
proof (cases "dict_get doc ''info'' (JObj [])")
  case (Inl e)
  then show ?thesis by (simp add: info_is_dict_def)
next
  case (Inr j)
  then show ?thesis
    by (cases j) (simp_all add: info_is_dict_def generate_html_def)
qed



lemma aborted_fields [simp]:
  "exit_status (aborted calls) = 1" "html_file (aborted calls) = None"
  "csv_file (aborted calls) = None" "calls_made (aborted calls) = calls"
  by (simp_all add: aborted_def)








end
